theory Spec2Isabelle
  imports Main "HOL-Library.Word"
begin

section \<open>Data model of \<open>init_process_state.go\<close>\<close>

text \<open>
  The five implementations of the Go interface \<open>initState\<close>. A value of this type is
  the dynamic type of the pointer stored in \<open>initProcess.initState\<close>.
\<close>

datatype initState = CreatedState | RunningState | PausedState | StoppedState | DeletedState

text \<open>
  An \<open>interface{}\<close> value as \<open>stateName\<close> sees it: a pointer to one of the state structs,
  or a value of any other dynamic type (described by a string).
\<close>

datatype goValue = StatePtr initState | OtherValue string

text \<open>
  Go \<open>error\<close> values. \<open>Errorf\<close> is \<open>fmt.Errorf\<close> with a constant message,
  \<open>InvalidTransition from to\<close> is
  \<open>fmt.Errorf("invalid state transition %q to %q", from, to)\<close>,
  \<open>InvalidState v\<close> is \<open>errors.Errorf("invalid state %v", v)\<close>, and \<open>External\<close> is an
  error made outside this file. A nil error is \<open>None\<close> of \<open>error option\<close>.
\<close>

datatype error =
    Errorf string
  | InvalidTransition string string
  | InvalidState goValue
  | External string

text \<open>A call either returns or panics with the value given to \<open>panic\<close>.\<close>

datatype 'a result = Return 'a | Panic error

text \<open>Types of other packages whose values this file only passes on.\<close>

typedecl protoAny
typedecl execOpts
typedecl runtimeProcess

record CheckpointConfig =
  WorkDir :: string
  Path :: string
  Exit :: bool
  AllowOpenTCP :: bool
  AllowExternalUnixSockets :: bool
  AllowTerminal :: bool
  FileLocks :: bool
  EmptyNamespaces :: "string list"

text \<open>The calls that reach the process controller, in the order they are made.\<close>

datatype call =
    CallStart
  | CallDelete
  | CallKill "32 word" bool
  | CallUpdate "protoAny option"
  | CallExec string execOpts
  | CallResume string

text \<open>
  The process controller is outside this file: its operations are parameters. Each one
  takes the controller's own state \<open>'w\<close> and returns its outcome with the new state.
\<close>

record 'w controller =
  p_start :: "'w \<Rightarrow> error option \<times> 'w"
  p_delete :: "'w \<Rightarrow> error option \<times> 'w"
  p_kill :: "32 word \<Rightarrow> bool \<Rightarrow> 'w \<Rightarrow> error option \<times> 'w"
  p_update :: "protoAny option \<Rightarrow> 'w \<Rightarrow> error option \<times> 'w"
  p_exec :: "string \<Rightarrow> execOpts \<Rightarrow> 'w \<Rightarrow> (runtimeProcess option \<times> error option) \<times> 'w"
  runtime_Resume :: "string \<Rightarrow> 'w \<Rightarrow> error option \<times> 'w"

text \<open>
  The struct \<open>initProcess\<close> (the \<open>s.p\<close> of every state): its id, the current state, the
  recorded exit status, the state of the controller it refers to, the controller calls made
  so far and the lines written to the log (\<open>logrus.WithError(err).Error(msg)\<close>).
\<close>

record 'w initProcess =
  ID :: string
  initState :: initState
  exitStatus :: "int option"
  world :: 'w
  calls :: "call list"
  logged :: "(error \<times> string) list"

subsection \<open>Methods of \<open>initProcess\<close> used by the states\<close>

text \<open>
  The states call these methods of \<open>initProcess\<close> for their side effects. Each one hands the
  call on to the process controller, which is recorded in \<open>calls\<close>, and returns its outcome;
  none of them touches the current state, which only the transition routines replace.
\<close>

text \<open>
  Modelled from the spec: \<open>initProcess.start\<close> is not in this file; it is the
  controller's \<open>start(ctx) -> error\<close>.
\<close>

definition initProcess_start :: "'w controller \<Rightarrow> 'w initProcess \<Rightarrow> error option \<times> 'w initProcess" where
  "initProcess_start ctl p =
     (case p_start ctl (world p) of
        (err, w) \<Rightarrow> (err, p\<lparr>world := w, calls := calls p @ [CallStart]\<rparr>))"

text \<open>
  Modelled from the spec: \<open>initProcess.delete\<close> is not in this file; it is the
  controller's \<open>delete(ctx) -> error\<close>.
\<close>

definition initProcess_delete :: "'w controller \<Rightarrow> 'w initProcess \<Rightarrow> error option \<times> 'w initProcess" where
  "initProcess_delete ctl p =
     (case p_delete ctl (world p) of
        (err, w) \<Rightarrow> (err, p\<lparr>world := w, calls := calls p @ [CallDelete]\<rparr>))"

text \<open>
  Modelled from the spec: \<open>initProcess.kill\<close> is not in this file; it is the
  controller's \<open>kill(ctx, signal, allProcesses) -> error\<close>.
\<close>

definition initProcess_kill ::
  "'w controller \<Rightarrow> 32 word \<Rightarrow> bool \<Rightarrow> 'w initProcess \<Rightarrow> error option \<times> 'w initProcess" where
  "initProcess_kill ctl sig all p =
     (case p_kill ctl sig all (world p) of
        (err, w) \<Rightarrow> (err, p\<lparr>world := w, calls := calls p @ [CallKill sig all]\<rparr>))"

text \<open>
  Modelled from the spec: \<open>initProcess.update\<close> is not in this file; it is the
  controller's \<open>update(ctx, resourceSpec) -> error\<close>.
\<close>

definition initProcess_update ::
  "'w controller \<Rightarrow> protoAny option \<Rightarrow> 'w initProcess \<Rightarrow> error option \<times> 'w initProcess" where
  "initProcess_update ctl r p =
     (case p_update ctl r (world p) of
        (err, w) \<Rightarrow> (err, p\<lparr>world := w, calls := calls p @ [CallUpdate r]\<rparr>))"

text \<open>
  Modelled from the spec: \<open>initProcess.exec\<close> is not in this file; it is the
  controller's \<open>exec(ctx, execID, options) -> (handle, error)\<close>.
\<close>

definition initProcess_exec ::
  "'w controller \<Rightarrow> string \<Rightarrow> execOpts \<Rightarrow> 'w initProcess
    \<Rightarrow> (runtimeProcess option \<times> error option) \<times> 'w initProcess" where
  "initProcess_exec ctl eid opts p =
     (case p_exec ctl eid opts (world p) of
        (r, w) \<Rightarrow> (r, p\<lparr>world := w, calls := calls p @ [CallExec eid opts]\<rparr>))"

text \<open>
  Modelled from the spec: \<open>initProcess.setExited\<close> is not in this file; it records
  the exit status.
\<close>

definition initProcess_setExited :: "int \<Rightarrow> 'w initProcess \<Rightarrow> 'w initProcess" where
  "initProcess_setExited status p = p\<lparr>exitStatus := Some status\<rparr>"

definition runtime_resume :: "'w controller \<Rightarrow> 'w initProcess \<Rightarrow> error option \<times> 'w initProcess" where
  \<comment> \<open>\<open>s.p.runtime.Resume(context.Background(), s.p.ID())\<close>\<close>
  "runtime_resume ctl p =
     (case runtime_Resume ctl (ID p) (world p) of
        (err, w) \<Rightarrow> (err, p\<lparr>world := w, calls := calls p @ [CallResume (ID p)]\<rparr>))"

definition log_error :: "error \<Rightarrow> string \<Rightarrow> 'w initProcess \<Rightarrow> 'w initProcess" where
  \<comment> \<open>\<open>logrus.WithError(err).Error(msg)\<close>\<close>
  "log_error err msg p = p\<lparr>logged := logged p @ [(err, msg)]\<rparr>"

subsection \<open>\<open>stateName\<close>\<close>

fun stateName :: "goValue \<Rightarrow> string result" where
  "stateName (StatePtr RunningState) = Return ''running''"
| "stateName (StatePtr CreatedState) = Return ''created''"
| "stateName (StatePtr DeletedState) = Return ''deleted''"
| "stateName (StatePtr StoppedState) = Return ''stopped''"
| "stateName v = Panic (InvalidState v)"

definition invalid_transition ::
  "goValue \<Rightarrow> string \<Rightarrow> 'w initProcess \<Rightarrow> (error option \<times> 'w initProcess) result" where
  \<comment> \<open>\<open>return fmt.Errorf("invalid state transition %q to %q", stateName(s), name)\<close>: the argument
      \<open>stateName(s)\<close> is evaluated first, and its panic replaces the return.\<close>
  "invalid_transition s name p =
     (case stateName s of
        Panic e \<Rightarrow> Panic e
      | Return from \<Rightarrow> Return (Some (InvalidTransition from name), p))"

definition panic_if_err :: "(error option \<times> 'w initProcess) result \<Rightarrow> 'w initProcess result" where
  \<comment> \<open>\<open>if err := s.transition("stopped"); err != nil { panic(err) }\<close>\<close>
  "panic_if_err r =
     (case r of
        Panic e \<Rightarrow> Panic e
      | Return (Some err, p) \<Rightarrow> Panic err
      | Return (None, p) \<Rightarrow> Return p)"

subsection \<open>\<open>createdState\<close>\<close>

definition createdState_transition ::
  "string \<Rightarrow> 'w initProcess \<Rightarrow> (error option \<times> 'w initProcess) result" where
  "createdState_transition name p =
     (if name = ''running'' then Return (None, p\<lparr>initState := RunningState\<rparr>)
      else if name = ''stopped'' then Return (None, p\<lparr>initState := StoppedState\<rparr>)
      else if name = ''deleted'' then Return (None, p\<lparr>initState := DeletedState\<rparr>)
      else invalid_transition (StatePtr CreatedState) name p)"

definition createdState_Pause :: "'w initProcess \<Rightarrow> (error option \<times> 'w initProcess) result" where
  "createdState_Pause p = Return (Some (Errorf ''cannot pause task in created state''), p)"

definition createdState_Resume :: "'w initProcess \<Rightarrow> (error option \<times> 'w initProcess) result" where
  "createdState_Resume p = Return (Some (Errorf ''cannot resume task in created state''), p)"

definition createdState_Update ::
  "'w controller \<Rightarrow> protoAny option \<Rightarrow> 'w initProcess \<Rightarrow> (error option \<times> 'w initProcess) result" where
  "createdState_Update ctl r p = Return (initProcess_update ctl r p)"

definition createdState_Checkpoint ::
  "CheckpointConfig option \<Rightarrow> 'w initProcess \<Rightarrow> (error option \<times> 'w initProcess) result" where
  "createdState_Checkpoint c p =
     Return (Some (Errorf ''cannot checkpoint a task in created state''), p)"

definition createdState_Start ::
  "'w controller \<Rightarrow> 'w initProcess \<Rightarrow> (error option \<times> 'w initProcess) result" where
  "createdState_Start ctl p =
     (case initProcess_start ctl p of
        (Some err, p') \<Rightarrow> Return (Some err, p')
      | (None, p') \<Rightarrow> createdState_transition ''running'' p')"

definition createdState_Delete ::
  "'w controller \<Rightarrow> 'w initProcess \<Rightarrow> (error option \<times> 'w initProcess) result" where
  "createdState_Delete ctl p =
     (case initProcess_delete ctl p of
        (Some err, p') \<Rightarrow> Return (Some err, p')
      | (None, p') \<Rightarrow> createdState_transition ''deleted'' p')"

definition createdState_Kill ::
  "'w controller \<Rightarrow> 32 word \<Rightarrow> bool \<Rightarrow> 'w initProcess \<Rightarrow> (error option \<times> 'w initProcess) result" where
  "createdState_Kill ctl sig all p = Return (initProcess_kill ctl sig all p)"

definition createdState_SetExited :: "int \<Rightarrow> 'w initProcess \<Rightarrow> 'w initProcess result" where
  "createdState_SetExited status p =
     panic_if_err (createdState_transition ''stopped'' (initProcess_setExited status p))"

definition createdState_Exec ::
  "'w controller \<Rightarrow> string \<Rightarrow> execOpts \<Rightarrow> 'w initProcess
    \<Rightarrow> ((runtimeProcess option \<times> error option) \<times> 'w initProcess) result" where
  "createdState_Exec ctl eid opts p = Return (initProcess_exec ctl eid opts p)"

definition createdState_Status :: "string \<times> error option" where
  "createdState_Status = (''created'', None)"

subsection \<open>\<open>runningState\<close>\<close>

definition runningState_transition ::
  "string \<Rightarrow> 'w initProcess \<Rightarrow> (error option \<times> 'w initProcess) result" where
  "runningState_transition name p =
     (if name = ''stopped'' then Return (None, p\<lparr>initState := StoppedState\<rparr>)
      else if name = ''paused'' then Return (None, p\<lparr>initState := PausedState\<rparr>)
      else invalid_transition (StatePtr RunningState) name p)"

definition runningState_Pause :: "'w initProcess \<Rightarrow> (error option \<times> 'w initProcess) result" where
  "runningState_Pause p = Return (Some (Errorf ''pause not implemented yet''), p)"

definition runningState_Resume :: "'w initProcess \<Rightarrow> (error option \<times> 'w initProcess) result" where
  "runningState_Resume p = Return (Some (Errorf ''cannot resume a running process''), p)"

definition runningState_Update ::
  "'w controller \<Rightarrow> protoAny option \<Rightarrow> 'w initProcess \<Rightarrow> (error option \<times> 'w initProcess) result" where
  "runningState_Update ctl r p = Return (initProcess_update ctl r p)"

definition runningState_Checkpoint ::
  "CheckpointConfig option \<Rightarrow> 'w initProcess \<Rightarrow> (error option \<times> 'w initProcess) result" where
  "runningState_Checkpoint c p = Return (Some (Errorf ''checkpoint not implemented yet''), p)"

definition runningState_Start :: "'w initProcess \<Rightarrow> (error option \<times> 'w initProcess) result" where
  "runningState_Start p = Return (Some (Errorf ''cannot start a running process''), p)"

definition runningState_Delete :: "'w initProcess \<Rightarrow> (error option \<times> 'w initProcess) result" where
  "runningState_Delete p = Return (Some (Errorf ''cannot delete a running process''), p)"

definition runningState_Kill ::
  "'w controller \<Rightarrow> 32 word \<Rightarrow> bool \<Rightarrow> 'w initProcess \<Rightarrow> (error option \<times> 'w initProcess) result" where
  "runningState_Kill ctl sig all p = Return (initProcess_kill ctl sig all p)"

definition runningState_SetExited :: "int \<Rightarrow> 'w initProcess \<Rightarrow> 'w initProcess result" where
  "runningState_SetExited status p =
     panic_if_err (runningState_transition ''stopped'' (initProcess_setExited status p))"

definition runningState_Exec ::
  "'w controller \<Rightarrow> string \<Rightarrow> execOpts \<Rightarrow> 'w initProcess
    \<Rightarrow> ((runtimeProcess option \<times> error option) \<times> 'w initProcess) result" where
  "runningState_Exec ctl eid opts p = Return (initProcess_exec ctl eid opts p)"

definition runningState_Status :: "string \<times> error option" where
  "runningState_Status = (''running'', None)"

subsection \<open>\<open>pausedState\<close>\<close>

definition pausedState_transition ::
  "string \<Rightarrow> 'w initProcess \<Rightarrow> (error option \<times> 'w initProcess) result" where
  "pausedState_transition name p =
     (if name = ''running'' then Return (None, p\<lparr>initState := RunningState\<rparr>)
      else if name = ''stopped'' then Return (None, p\<lparr>initState := StoppedState\<rparr>)
      else invalid_transition (StatePtr PausedState) name p)"

definition pausedState_Pause :: "'w initProcess \<Rightarrow> (error option \<times> 'w initProcess) result" where
  "pausedState_Pause p = Return (Some (Errorf ''cannot pause a paused container''), p)"

definition pausedState_Resume :: "'w initProcess \<Rightarrow> (error option \<times> 'w initProcess) result" where
  "pausedState_Resume p = Return (Some (Errorf ''resume not implemented yet''), p)"

definition pausedState_Update ::
  "'w controller \<Rightarrow> protoAny option \<Rightarrow> 'w initProcess \<Rightarrow> (error option \<times> 'w initProcess) result" where
  "pausedState_Update ctl r p = Return (initProcess_update ctl r p)"

definition pausedState_Checkpoint ::
  "CheckpointConfig option \<Rightarrow> 'w initProcess \<Rightarrow> (error option \<times> 'w initProcess) result" where
  "pausedState_Checkpoint c p = Return (Some (Errorf ''checkpoint not implemented yet''), p)"

definition pausedState_Start :: "'w initProcess \<Rightarrow> (error option \<times> 'w initProcess) result" where
  "pausedState_Start p = Return (Some (Errorf ''cannot start a paused process''), p)"

definition pausedState_Delete :: "'w initProcess \<Rightarrow> (error option \<times> 'w initProcess) result" where
  "pausedState_Delete p = Return (Some (Errorf ''cannot delete a paused process''), p)"

definition pausedState_Kill ::
  "'w controller \<Rightarrow> 32 word \<Rightarrow> bool \<Rightarrow> 'w initProcess \<Rightarrow> (error option \<times> 'w initProcess) result" where
  "pausedState_Kill ctl sig all p = Return (initProcess_kill ctl sig all p)"

definition pausedState_SetExited ::
  "'w controller \<Rightarrow> int \<Rightarrow> 'w initProcess \<Rightarrow> 'w initProcess result" where
  "pausedState_SetExited ctl status p =
     (case runtime_resume ctl (initProcess_setExited status p) of
        (Some err, p') \<Rightarrow>
          panic_if_err (pausedState_transition ''stopped''
            (log_error err ''resuming exited container from paused state'' p'))
      | (None, p') \<Rightarrow> panic_if_err (pausedState_transition ''stopped'' p'))"

definition pausedState_Exec ::
  "string \<Rightarrow> execOpts \<Rightarrow> 'w initProcess
    \<Rightarrow> ((runtimeProcess option \<times> error option) \<times> 'w initProcess) result" where
  "pausedState_Exec eid opts p = Return ((None, Some (Errorf ''cannot exec in a paused state'')), p)"

definition pausedState_Status :: "string \<times> error option" where
  "pausedState_Status = (''paused'', None)"

subsection \<open>\<open>stoppedState\<close>\<close>

definition stoppedState_transition ::
  "string \<Rightarrow> 'w initProcess \<Rightarrow> (error option \<times> 'w initProcess) result" where
  "stoppedState_transition name p =
     (if name = ''deleted'' then Return (None, p\<lparr>initState := DeletedState\<rparr>)
      else invalid_transition (StatePtr StoppedState) name p)"

definition stoppedState_Pause :: "'w initProcess \<Rightarrow> (error option \<times> 'w initProcess) result" where
  "stoppedState_Pause p = Return (Some (Errorf ''cannot pause a stopped container''), p)"

definition stoppedState_Resume :: "'w initProcess \<Rightarrow> (error option \<times> 'w initProcess) result" where
  "stoppedState_Resume p = Return (Some (Errorf ''cannot resume a stopped container''), p)"

definition stoppedState_Update ::
  "protoAny option \<Rightarrow> 'w initProcess \<Rightarrow> (error option \<times> 'w initProcess) result" where
  "stoppedState_Update r p = Return (Some (Errorf ''cannot update a stopped container''), p)"

definition stoppedState_Checkpoint ::
  "CheckpointConfig option \<Rightarrow> 'w initProcess \<Rightarrow> (error option \<times> 'w initProcess) result" where
  "stoppedState_Checkpoint c p = Return (Some (Errorf ''cannot checkpoint a stopped container''), p)"

definition stoppedState_Start :: "'w initProcess \<Rightarrow> (error option \<times> 'w initProcess) result" where
  "stoppedState_Start p = Return (Some (Errorf ''cannot start a stopped process''), p)"

definition stoppedState_Delete ::
  "'w controller \<Rightarrow> 'w initProcess \<Rightarrow> (error option \<times> 'w initProcess) result" where
  "stoppedState_Delete ctl p =
     (case initProcess_delete ctl p of
        (Some err, p') \<Rightarrow> Return (Some err, p')
      | (None, p') \<Rightarrow> stoppedState_transition ''deleted'' p')"

definition stoppedState_Kill ::
  "'w controller \<Rightarrow> 32 word \<Rightarrow> bool \<Rightarrow> 'w initProcess \<Rightarrow> (error option \<times> 'w initProcess) result" where
  "stoppedState_Kill ctl sig all p = Return (initProcess_kill ctl sig all p)"

definition stoppedState_SetExited :: "int \<Rightarrow> 'w initProcess \<Rightarrow> 'w initProcess result" where
  \<comment> \<open>no op\<close>
  "stoppedState_SetExited status p = Return p"

definition stoppedState_Exec ::
  "string \<Rightarrow> execOpts \<Rightarrow> 'w initProcess
    \<Rightarrow> ((runtimeProcess option \<times> error option) \<times> 'w initProcess) result" where
  "stoppedState_Exec eid opts p = Return ((None, Some (Errorf ''cannot exec in a stopped state'')), p)"

definition stoppedState_Status :: "string \<times> error option" where
  "stoppedState_Status = (''stopped'', None)"

subsection \<open>\<open>deletedState\<close>\<close>

text \<open>
  The operations of the interface \<open>initState\<close> with their arguments, and what a call
  gives back to its caller.
\<close>

datatype op =
    Start
  | Delete
  | Pause
  | Resume
  | Update "protoAny option"
  | Checkpoint "CheckpointConfig option"
  | Exec string execOpts
  | Kill "32 word" bool
  | SetExited int
  | Status

datatype ret =
    RetError "error option"
  | RetExec "runtimeProcess option" "error option"
  | RetUnit
  | RetStatus string "error option"

fun ret_error :: "ret \<Rightarrow> error option" where
  "ret_error (RetError err) = err"
| "ret_error (RetExec h err) = err"
| "ret_error RetUnit = None"
| "ret_error (RetStatus s err) = err"

text \<open>
  Modelled from the spec: the type \<open>deletedState\<close> and its methods are not in this
  file. The table of section 4.1 gives an error for eight operations in Deleted and no
  behaviour (not reachable) for SetExited and Status, which is \<open>None\<close> here.
\<close>

fun deletedState_call :: "op \<Rightarrow> 'w initProcess \<Rightarrow> (ret \<times> 'w initProcess) result option" where
  "deletedState_call Start p = Some (Return (RetError (Some (Errorf ''already deleted'')), p))"
| "deletedState_call Pause p = Some (Return (RetError (Some (Errorf ''cannot pause deleted'')), p))"
| "deletedState_call Resume p = Some (Return (RetError (Some (Errorf ''cannot resume deleted'')), p))"
| "deletedState_call (Update r) p =
     Some (Return (RetError (Some (Errorf ''cannot update deleted'')), p))"
| "deletedState_call (Checkpoint c) p =
     Some (Return (RetError (Some (Errorf ''cannot checkpoint deleted'')), p))"
| "deletedState_call Delete p = Some (Return (RetError (Some (Errorf ''cannot delete deleted'')), p))"
| "deletedState_call (Kill sig all) p =
     Some (Return (RetError (Some (Errorf ''cannot kill deleted'')), p))"
| "deletedState_call (Exec eid opts) p =
     Some (Return (RetExec None (Some (Errorf ''cannot exec in deleted state'')), p))"
| "deletedState_call (SetExited status) p = None"
| "deletedState_call Status p = None"

subsection \<open>Calling an operation on the current state\<close>

definition with_error :: "(error option \<times> 'w initProcess) result \<Rightarrow> (ret \<times> 'w initProcess) result" where
  "with_error r = (case r of Panic e \<Rightarrow> Panic e | Return (err, p) \<Rightarrow> Return (RetError err, p))"

definition with_exec ::
  "((runtimeProcess option \<times> error option) \<times> 'w initProcess) result
    \<Rightarrow> (ret \<times> 'w initProcess) result" where
  "with_exec r = (case r of Panic e \<Rightarrow> Panic e | Return ((h, err), p) \<Rightarrow> Return (RetExec h err, p))"

definition with_unit :: "'w initProcess result \<Rightarrow> (ret \<times> 'w initProcess) result" where
  "with_unit r = (case r of Panic e \<Rightarrow> Panic e | Return p \<Rightarrow> Return (RetUnit, p))"

definition with_status :: "string \<times> error option \<Rightarrow> 'w initProcess \<Rightarrow> (ret \<times> 'w initProcess) result" where
  "with_status r p = (case r of (s, err) \<Rightarrow> Return (RetStatus s err, p))"

fun createdState_call :: "'w controller \<Rightarrow> op \<Rightarrow> 'w initProcess \<Rightarrow> (ret \<times> 'w initProcess) result" where
  "createdState_call ctl Start p = with_error (createdState_Start ctl p)"
| "createdState_call ctl Delete p = with_error (createdState_Delete ctl p)"
| "createdState_call ctl Pause p = with_error (createdState_Pause p)"
| "createdState_call ctl Resume p = with_error (createdState_Resume p)"
| "createdState_call ctl (Update r) p = with_error (createdState_Update ctl r p)"
| "createdState_call ctl (Checkpoint c) p = with_error (createdState_Checkpoint c p)"
| "createdState_call ctl (Exec eid opts) p = with_exec (createdState_Exec ctl eid opts p)"
| "createdState_call ctl (Kill sig all) p = with_error (createdState_Kill ctl sig all p)"
| "createdState_call ctl (SetExited status) p = with_unit (createdState_SetExited status p)"
| "createdState_call ctl Status p = with_status createdState_Status p"

fun runningState_call :: "'w controller \<Rightarrow> op \<Rightarrow> 'w initProcess \<Rightarrow> (ret \<times> 'w initProcess) result" where
  "runningState_call ctl Start p = with_error (runningState_Start p)"
| "runningState_call ctl Delete p = with_error (runningState_Delete p)"
| "runningState_call ctl Pause p = with_error (runningState_Pause p)"
| "runningState_call ctl Resume p = with_error (runningState_Resume p)"
| "runningState_call ctl (Update r) p = with_error (runningState_Update ctl r p)"
| "runningState_call ctl (Checkpoint c) p = with_error (runningState_Checkpoint c p)"
| "runningState_call ctl (Exec eid opts) p = with_exec (runningState_Exec ctl eid opts p)"
| "runningState_call ctl (Kill sig all) p = with_error (runningState_Kill ctl sig all p)"
| "runningState_call ctl (SetExited status) p = with_unit (runningState_SetExited status p)"
| "runningState_call ctl Status p = with_status runningState_Status p"

fun pausedState_call :: "'w controller \<Rightarrow> op \<Rightarrow> 'w initProcess \<Rightarrow> (ret \<times> 'w initProcess) result" where
  "pausedState_call ctl Start p = with_error (pausedState_Start p)"
| "pausedState_call ctl Delete p = with_error (pausedState_Delete p)"
| "pausedState_call ctl Pause p = with_error (pausedState_Pause p)"
| "pausedState_call ctl Resume p = with_error (pausedState_Resume p)"
| "pausedState_call ctl (Update r) p = with_error (pausedState_Update ctl r p)"
| "pausedState_call ctl (Checkpoint c) p = with_error (pausedState_Checkpoint c p)"
| "pausedState_call ctl (Exec eid opts) p = with_exec (pausedState_Exec eid opts p)"
| "pausedState_call ctl (Kill sig all) p = with_error (pausedState_Kill ctl sig all p)"
| "pausedState_call ctl (SetExited status) p = with_unit (pausedState_SetExited ctl status p)"
| "pausedState_call ctl Status p = with_status pausedState_Status p"

fun stoppedState_call :: "'w controller \<Rightarrow> op \<Rightarrow> 'w initProcess \<Rightarrow> (ret \<times> 'w initProcess) result" where
  "stoppedState_call ctl Start p = with_error (stoppedState_Start p)"
| "stoppedState_call ctl Delete p = with_error (stoppedState_Delete ctl p)"
| "stoppedState_call ctl Pause p = with_error (stoppedState_Pause p)"
| "stoppedState_call ctl Resume p = with_error (stoppedState_Resume p)"
| "stoppedState_call ctl (Update r) p = with_error (stoppedState_Update r p)"
| "stoppedState_call ctl (Checkpoint c) p = with_error (stoppedState_Checkpoint c p)"
| "stoppedState_call ctl (Exec eid opts) p = with_exec (stoppedState_Exec eid opts p)"
| "stoppedState_call ctl (Kill sig all) p = with_error (stoppedState_Kill ctl sig all p)"
| "stoppedState_call ctl (SetExited status) p = with_unit (stoppedState_SetExited status p)"
| "stoppedState_call ctl Status p = with_status stoppedState_Status p"

definition initProcess_call ::
  "'w controller \<Rightarrow> op \<Rightarrow> 'w initProcess \<Rightarrow> (ret \<times> 'w initProcess) result option" where
  \<comment> \<open>A method call on the interface value \<open>p.initState\<close> runs the method of its dynamic type.\<close>
  "initProcess_call ctl op p =
     (case initState p of
        CreatedState \<Rightarrow> Some (createdState_call ctl op p)
      | RunningState \<Rightarrow> Some (runningState_call ctl op p)
      | PausedState \<Rightarrow> Some (pausedState_call ctl op p)
      | StoppedState \<Rightarrow> Some (stoppedState_call ctl op p)
      | DeletedState \<Rightarrow> deletedState_call op p)"

fun run ::
  "'w controller \<Rightarrow> op list \<Rightarrow> 'w initProcess \<Rightarrow> (ret list \<times> 'w initProcess) result option" where
  \<comment> \<open>One caller making the calls one after the other; a panic ends the sequence.\<close>
  "run ctl [] p = Some (Return ([], p))"
| "run ctl (op # ops) p =
     (case initProcess_call ctl op p of
        None \<Rightarrow> None
      | Some (Panic e) \<Rightarrow> Some (Panic e)
      | Some (Return (r, p')) \<Rightarrow>
          (case run ctl ops p' of
             None \<Rightarrow> None
           | Some (Panic e) \<Rightarrow> Some (Panic e)
           | Some (Return (rs, p'')) \<Rightarrow> Some (Return (r # rs, p''))))"

subsection \<open>The tables of the specification\<close>




text \<open>
  The operation table (section 4.1 of the specification), entry by entry. \<open>Delegate\<close> carries
  the successor state of a successful call, if the entry names one.
\<close>

datatype entry =
    Delegate "initState option"
  | IllegalError
  | NotImplemented
  | RecordExit
  | NoOp
  | StatusString string
  | NotReachable

fun spec_row :: "op \<Rightarrow> entry list" where
  \<comment> \<open>the columns Created, Running, Paused, Stopped, Deleted\<close>
  "spec_row Start = [Delegate (Some RunningState), IllegalError, IllegalError, IllegalError, IllegalError]"
| "spec_row Pause = [IllegalError, NotImplemented, IllegalError, IllegalError, IllegalError]"
| "spec_row Resume = [IllegalError, IllegalError, NotImplemented, IllegalError, IllegalError]"
| "spec_row (Update r) = [Delegate None, Delegate None, Delegate None, IllegalError, IllegalError]"
| "spec_row (Checkpoint c) = [IllegalError, NotImplemented, NotImplemented, IllegalError, IllegalError]"
| "spec_row Delete =
     [Delegate (Some DeletedState), IllegalError, IllegalError, Delegate (Some DeletedState), IllegalError]"
| "spec_row (Kill sig all) = [Delegate None, Delegate None, Delegate None, Delegate None, IllegalError]"
| "spec_row (Exec eid opts) = [Delegate None, Delegate None, IllegalError, IllegalError, IllegalError]"
| "spec_row (SetExited status) = [RecordExit, RecordExit, RecordExit, NoOp, NotReachable]"
| "spec_row Status =
     [StatusString ''created'', StatusString ''running'', StatusString ''paused'',
      StatusString ''stopped'', NotReachable]"

fun column :: "initState \<Rightarrow> nat" where
  "column CreatedState = 0"
| "column RunningState = 1"
| "column PausedState = 2"
| "column StoppedState = 3"
| "column DeletedState = 4"

definition spec_table :: "op \<Rightarrow> initState \<Rightarrow> entry" where
  "spec_table op st = spec_row op ! column st"

fun is_delegate :: "entry \<Rightarrow> bool" where
  "is_delegate (Delegate s) = True"
| "is_delegate e = False"

fun is_error_entry :: "entry \<Rightarrow> bool" where
  "is_error_entry IllegalError = True"
| "is_error_entry NotImplemented = True"
| "is_error_entry e = False"

subsection \<open>Example controllers and processes\<close>

definition okController :: "nat controller" where
  \<comment> \<open>every call succeeds; the controller counts its calls\<close>
  "okController =
     \<lparr>p_start = (\<lambda>w. (None, Suc w)),
      p_delete = (\<lambda>w. (None, Suc w)),
      p_kill = (\<lambda>sig all w. (None, Suc w)),
      p_update = (\<lambda>r w. (None, Suc w)),
      p_exec = (\<lambda>eid opts w. ((None, None), Suc w)),
      runtime_Resume = (\<lambda>pid w. (None, Suc w))\<rparr>"

definition failingController :: "nat controller" where
  \<comment> \<open>every call fails\<close>
  "failingController =
     \<lparr>p_start = (\<lambda>w. (Some (External ''start failed''), Suc w)),
      p_delete = (\<lambda>w. (Some (External ''delete failed''), Suc w)),
      p_kill = (\<lambda>sig all w. (Some (External ''kill failed''), Suc w)),
      p_update = (\<lambda>r w. (Some (External ''update failed''), Suc w)),
      p_exec = (\<lambda>eid opts w. ((None, Some (External ''exec failed'')), Suc w)),
      runtime_Resume = (\<lambda>pid w. (Some (External ''resume failed''), Suc w))\<rparr>"

definition processIn :: "initState \<Rightarrow> nat initProcess" where
  \<comment> \<open>the process \<open>init-1\<close> in a given state, before any controller call\<close>
  "processIn st =
     \<lparr>ID = ''init-1'', initState = st, exitStatus = None, world = 0, calls = [], logged = []\<rparr>"

section \<open>Properties\<close>

lemmas transition_defs =
  createdState_transition_def runningState_transition_def pausedState_transition_def
  stoppedState_transition_def invalid_transition_def

lemmas call_defs = initProcess_call_def with_error_def with_exec_def with_unit_def with_status_def

lemmas delegate_defs =
  initProcess_start_def initProcess_delete_def initProcess_kill_def initProcess_update_def
  initProcess_exec_def initProcess_setExited_def runtime_resume_def log_error_def

lemmas created_defs =
  createdState_Pause_def createdState_Resume_def createdState_Update_def
  createdState_Checkpoint_def createdState_Start_def createdState_Delete_def
  createdState_Kill_def createdState_SetExited_def createdState_Exec_def createdState_Status_def

lemmas running_defs =
  runningState_Pause_def runningState_Resume_def runningState_Update_def
  runningState_Checkpoint_def runningState_Start_def runningState_Delete_def
  runningState_Kill_def runningState_SetExited_def runningState_Exec_def runningState_Status_def

lemmas paused_defs =
  pausedState_Pause_def pausedState_Resume_def pausedState_Update_def
  pausedState_Checkpoint_def pausedState_Start_def pausedState_Delete_def
  pausedState_Kill_def pausedState_SetExited_def pausedState_Exec_def pausedState_Status_def

lemmas stopped_defs =
  stoppedState_Pause_def stoppedState_Resume_def stoppedState_Update_def
  stoppedState_Checkpoint_def stoppedState_Start_def stoppedState_Delete_def
  stoppedState_Kill_def stoppedState_SetExited_def stoppedState_Exec_def stoppedState_Status_def

lemmas example_defs = processIn_def okController_def failingController_def

text \<open>
  Claim C1. For a process in the Paused state, SetExited records the exit status, calls
  the controller's Resume for the process id exactly once (one \<open>CallResume (ID p)\<close> is added to
  the calls), ignores its outcome (a failure adds one line to the log and nothing else) and
  ends in the Stopped state.
\<close>

theorem paused_SetExited:
  assumes "initState p = PausedState"
  shows "initProcess_call ctl (SetExited status) p =
     Some (Return (RetUnit,
       p\<lparr>initState := StoppedState,
         exitStatus := Some status,
         world := snd (runtime_Resume ctl (ID p) (world p)),
         calls := calls p @ [CallResume (ID p)],
         logged := logged p @
           (case fst (runtime_Resume ctl (ID p) (world p)) of
              None \<Rightarrow> []
            | Some err \<Rightarrow> [(err, ''resuming exited container from paused state'')])\<rparr>))"
  using assms
  by (simp add: call_defs pausedState_SetExited_def runtime_resume_def initProcess_setExited_def
      log_error_def pausedState_transition_def panic_if_err_def split: prod.splits option.splits)

theorem paused_SetExited_witness:
  "initState (processIn PausedState) = PausedState \<and>
   initProcess_call failingController (SetExited 137) (processIn PausedState) =
     Some (Return (RetUnit,
       \<lparr>ID = ''init-1'', initState = StoppedState, exitStatus = Some 137, world = 1,
        calls = [CallResume ''init-1''],
        logged = [(External ''resume failed'', ''resuming exited container from paused state'')]\<rparr>))
   \<and> initProcess_call okController (SetExited 0) (processIn PausedState) =
     Some (Return (RetUnit,
       \<lparr>ID = ''init-1'', initState = StoppedState, exitStatus = Some 0, world = 1,
        calls = [CallResume ''init-1''], logged = []\<rparr>))"
  using paused_SetExited [of "processIn PausedState" failingController 137]
    paused_SetExited [of "processIn PausedState" okController 0]
  by (simp add: processIn_def failingController_def okController_def)

text \<open>
  Claim C2. For a process in the Created, Running or Paused state, SetExited always
  returns (no panic, no error), for every controller and every earlier history of the process:
  the exit status is recorded and the process is in the Stopped state.
\<close>

theorem SetExited_always_succeeds:
  assumes "initState p = CreatedState \<or> initState p = RunningState \<or> initState p = PausedState"
  shows "\<exists>p'. initProcess_call ctl (SetExited status) p = Some (Return (RetUnit, p'))
     \<and> initState p' = StoppedState \<and> exitStatus p' = Some status"
  using assms
  by (auto simp add: call_defs pausedState_SetExited_def runtime_resume_def initProcess_setExited_def
      createdState_SetExited_def runningState_SetExited_def createdState_transition_def
      runningState_transition_def
      log_error_def pausedState_transition_def panic_if_err_def split: prod.splits option.splits)

theorem SetExited_always_succeeds_witness:
  "(initState (processIn RunningState) = CreatedState
      \<or> initState (processIn RunningState) = RunningState
      \<or> initState (processIn RunningState) = PausedState)
   \<and> (\<exists>p'. initProcess_call failingController (SetExited 137) (processIn RunningState) =
          Some (Return (RetUnit, p'))
        \<and> initState p' = StoppedState \<and> exitStatus p' = Some 137)
   \<and> (\<exists>p'. initProcess_call failingController (SetExited 1) (processIn PausedState) =
          Some (Return (RetUnit, p'))
        \<and> initState p' = StoppedState \<and> exitStatus p' = Some 1)
   \<and> (\<exists>p'. initProcess_call okController (SetExited 0) (processIn CreatedState) =
          Some (Return (RetUnit, p'))
        \<and> initState p' = StoppedState \<and> exitStatus p' = Some 0)"
  using SetExited_always_succeeds [of "processIn RunningState" failingController 137]
    SetExited_always_succeeds [of "processIn PausedState" failingController 1]
    SetExited_always_succeeds [of "processIn CreatedState" okController 0]
  by (simp add: processIn_def)

text \<open>
  Claim C3. For a process in the Created state, Start calls the controller's start; when
  that succeeds the process is Running, and when it fails the same error is returned and the
  process is still Created.
\<close>

theorem created_Start:
  assumes "initState p = CreatedState"
  shows "(\<forall>w. p_start ctl (world p) = (None, w) \<longrightarrow>
            initProcess_call ctl Start p =
              Some (Return (RetError None,
                p\<lparr>initState := RunningState, world := w, calls := calls p @ [CallStart]\<rparr>)))
       \<and> (\<forall>err w. p_start ctl (world p) = (Some err, w) \<longrightarrow>
            initProcess_call ctl Start p =
              Some (Return (RetError (Some err), p\<lparr>world := w, calls := calls p @ [CallStart]\<rparr>))
            \<and> initState (p\<lparr>world := w, calls := calls p @ [CallStart]\<rparr>) = CreatedState)"
  using assms
  by (simp add: call_defs createdState_Start_def initProcess_start_def createdState_transition_def)

theorem created_Start_witness:
  "initState (processIn CreatedState) = CreatedState
   \<and> p_start okController (world (processIn CreatedState)) = (None, 1)
   \<and> initProcess_call okController Start (processIn CreatedState) =
       Some (Return (RetError None,
         \<lparr>ID = ''init-1'', initState = RunningState, exitStatus = None, world = 1,
          calls = [CallStart], logged = []\<rparr>))
   \<and> p_start failingController (world (processIn CreatedState)) = (Some (External ''start failed''), 1)
   \<and> initProcess_call failingController Start (processIn CreatedState) =
       Some (Return (RetError (Some (External ''start failed'')),
         \<lparr>ID = ''init-1'', initState = CreatedState, exitStatus = None, world = 1,
          calls = [CallStart], logged = []\<rparr>))"
  using created_Start [of "processIn CreatedState" okController]
    created_Start [of "processIn CreatedState" failingController]
  by (simp add: example_defs)

text \<open>
  Claim C4. In the Created and Stopped states a successful Delete moves the process to
  Deleted (and a failed one returns the controller's error without a transition); in the Running
  and Paused states Delete returns an error and leaves the process as it was.
\<close>

theorem Delete_legality:
  "(initState p = CreatedState \<or> initState p = StoppedState \<longrightarrow>
      (\<forall>w. p_delete ctl (world p) = (None, w) \<longrightarrow>
         initProcess_call ctl Delete p =
           Some (Return (RetError None,
             p\<lparr>initState := DeletedState, world := w, calls := calls p @ [CallDelete]\<rparr>)))
    \<and> (\<forall>err w. p_delete ctl (world p) = (Some err, w) \<longrightarrow>
         initProcess_call ctl Delete p =
           Some (Return (RetError (Some err), p\<lparr>world := w, calls := calls p @ [CallDelete]\<rparr>))))
   \<and> (initState p = RunningState \<or> initState p = PausedState \<longrightarrow>
        (\<exists>err. initProcess_call ctl Delete p = Some (Return (RetError (Some err), p))))"
  by (auto simp add: call_defs createdState_Delete_def stoppedState_Delete_def
      runningState_Delete_def pausedState_Delete_def initProcess_delete_def
      createdState_transition_def stoppedState_transition_def)

theorem Delete_legality_witness:
  "initProcess_call okController Delete (processIn CreatedState) =
     Some (Return (RetError None,
       \<lparr>ID = ''init-1'', initState = DeletedState, exitStatus = None, world = 1,
        calls = [CallDelete], logged = []\<rparr>))
   \<and> initProcess_call okController Delete (processIn StoppedState) =
     Some (Return (RetError None,
       \<lparr>ID = ''init-1'', initState = DeletedState, exitStatus = None, world = 1,
        calls = [CallDelete], logged = []\<rparr>))
   \<and> initProcess_call failingController Delete (processIn StoppedState) =
     Some (Return (RetError (Some (External ''delete failed'')),
       \<lparr>ID = ''init-1'', initState = StoppedState, exitStatus = None, world = 1,
        calls = [CallDelete], logged = []\<rparr>))
   \<and> (\<exists>err. initProcess_call okController Delete (processIn RunningState) =
         Some (Return (RetError (Some err), processIn RunningState)))
   \<and> (\<exists>err. initProcess_call okController Delete (processIn PausedState) =
         Some (Return (RetError (Some err), processIn PausedState)))"
  using Delete_legality [of "processIn CreatedState" okController]
    Delete_legality [of "processIn StoppedState" okController]
    Delete_legality [of "processIn StoppedState" failingController]
    Delete_legality [of "processIn RunningState" okController]
    Delete_legality [of "processIn PausedState" okController]
  by (simp add: example_defs)

text \<open>
  Claim C5 as stated fails: SetExited in Stopped and Status in Running are entries that
  neither delegate nor record an exit status, and both return without an error.
\<close>

theorem non_delegating_entry_counterexample:
  "\<not> is_delegate (spec_table (SetExited 0) StoppedState)
   \<and> spec_table (SetExited 0) StoppedState \<noteq> RecordExit
   \<and> initState (processIn StoppedState) = StoppedState
   \<and> initProcess_call okController (SetExited 0) (processIn StoppedState) =
       Some (Return (RetUnit, processIn StoppedState))
   \<and> ret_error RetUnit = None
   \<and> \<not> is_delegate (spec_table Status RunningState)
   \<and> spec_table Status RunningState \<noteq> RecordExit
   \<and> initState (processIn RunningState) = RunningState
   \<and> initProcess_call okController Status (processIn RunningState) =
       Some (Return (RetStatus ''running'' None, processIn RunningState))
   \<and> ret_error (RetStatus ''running'' None) = None"
  by (simp add: spec_table_def call_defs stoppedState_SetExited_def runningState_Status_def
      processIn_def)

text \<open>
  Claim C5, amended. For every pair of a state and an operation whose entry in the
  operation table is an error (illegal operation or not implemented), the call returns an error
  and leaves the process unchanged. For the other entries that neither delegate nor record an
  exit status and that have a behaviour (the no-op SetExited in Stopped and the four Status
  entries), the call leaves the process unchanged and returns no error.
\<close>

theorem error_entry_rejected:
  "(is_error_entry (spec_table op (initState p)) \<longrightarrow>
      (\<exists>r err. initProcess_call ctl op p = Some (Return (r, p)) \<and> ret_error r = Some err))
   \<and> (spec_table op (initState p) = NoOp \<or> (\<exists>s. spec_table op (initState p) = StatusString s) \<longrightarrow>
      (\<exists>r. initProcess_call ctl op p = Some (Return (r, p)) \<and> ret_error r = None))"
  by (cases "initState p"; cases op;
      simp add: spec_table_def call_defs created_defs running_defs paused_defs stopped_defs)

theorem error_entry_rejected_witness:
  "is_error_entry (spec_table Pause (initState (processIn RunningState)))
   \<and> initProcess_call okController Pause (processIn RunningState) =
       Some (Return (RetError (Some (Errorf ''pause not implemented yet'')), processIn RunningState))
   \<and> spec_table (SetExited 3) (initState (processIn StoppedState)) = NoOp
   \<and> initProcess_call okController (SetExited 3) (processIn StoppedState) =
       Some (Return (RetUnit, processIn StoppedState))"
  using error_entry_rejected [of Pause "processIn RunningState" okController]
    error_entry_rejected [of "SetExited 3" "processIn StoppedState" okController]
  by (simp add: spec_table_def call_defs runningState_Pause_def stoppedState_SetExited_def
      processIn_def)

text \<open>
  Claim C6. For a process in the Stopped state, any number of SetExited calls, one after
  the other and with any statuses, all return without error and leave the process as it was:
  still Stopped, with no further controller call.
\<close>

theorem SetExited_idempotent_when_stopped:
  assumes "initState p = StoppedState"
  shows "run ctl (map SetExited statuses) p =
           Some (Return (replicate (length statuses) RetUnit, p))"
proof (induction statuses)
  case Nil
  show ?case by simp
next
  case (Cons s statuses)
  have "initProcess_call ctl (SetExited s) p = Some (Return (RetUnit, p))"
    using assms by (simp add: call_defs stoppedState_SetExited_def)
  with Cons.IH show ?case by simp
qed

theorem SetExited_idempotent_when_stopped_witness:
  "initState (processIn StoppedState) = StoppedState
   \<and> run failingController [SetExited 0, SetExited 137, SetExited 0] (processIn StoppedState) =
       Some (Return ([RetUnit, RetUnit, RetUnit], processIn StoppedState))"
  using SetExited_idempotent_when_stopped [of "processIn StoppedState" failingController "[0, 137, 0]"]
  by (simp add: processIn_def)

text \<open>
  Claim C7. In each of the four states before Deleted, Status returns the name of the
  state (created, running, paused, stopped) with a nil error and leaves the process, the
  controller and the list of controller calls unchanged.
\<close>

theorem Status_pure:
  "(initState p = CreatedState \<longrightarrow>
      initProcess_call ctl Status p = Some (Return (RetStatus ''created'' None, p)))
   \<and> (initState p = RunningState \<longrightarrow>
      initProcess_call ctl Status p = Some (Return (RetStatus ''running'' None, p)))
   \<and> (initState p = PausedState \<longrightarrow>
      initProcess_call ctl Status p = Some (Return (RetStatus ''paused'' None, p)))
   \<and> (initState p = StoppedState \<longrightarrow>
      initProcess_call ctl Status p = Some (Return (RetStatus ''stopped'' None, p)))"
  by (simp add: call_defs createdState_Status_def runningState_Status_def pausedState_Status_def
      stoppedState_Status_def)

theorem Status_pure_witness:
  "initProcess_call okController Status (processIn CreatedState) =
     Some (Return (RetStatus ''created'' None, processIn CreatedState))
   \<and> initProcess_call okController Status (processIn RunningState) =
     Some (Return (RetStatus ''running'' None, processIn RunningState))
   \<and> initProcess_call okController Status (processIn PausedState) =
     Some (Return (RetStatus ''paused'' None, processIn PausedState))
   \<and> initProcess_call okController Status (processIn StoppedState) =
     Some (Return (RetStatus ''stopped'' None, processIn StoppedState))"
  using Status_pure [of "processIn CreatedState" okController]
    Status_pure [of "processIn RunningState" okController]
    Status_pure [of "processIn PausedState" okController]
    Status_pure [of "processIn StoppedState" okController]
  by (simp add: processIn_def)



text \<open>
  Claim C9. The transition routines of Created, Running and Paused accept the name
  \<open>stopped\<close>, so the SetExited of each of these states returns and never panics.
\<close>

theorem SetExited_never_panics:
  "createdState_transition ''stopped'' p = Return (None, p\<lparr>initState := StoppedState\<rparr>)
   \<and> runningState_transition ''stopped'' p = Return (None, p\<lparr>initState := StoppedState\<rparr>)
   \<and> pausedState_transition ''stopped'' p = Return (None, p\<lparr>initState := StoppedState\<rparr>)
   \<and> createdState_SetExited status p =
       Return (p\<lparr>initState := StoppedState, exitStatus := Some status\<rparr>)
   \<and> runningState_SetExited status p =
       Return (p\<lparr>initState := StoppedState, exitStatus := Some status\<rparr>)
   \<and> (\<exists>p'. pausedState_SetExited ctl status p = Return p')"
  by (simp add: transition_defs panic_if_err_def createdState_SetExited_def
      runningState_SetExited_def pausedState_SetExited_def delegate_defs
      split: prod.splits option.splits)

text \<open>
  Claim C10. \<open>stateName\<close> gives a name to the running, created, deleted and stopped
  states only and panics on every other value, the paused state among them; so a transition
  request from the Paused state to a name other than \<open>running\<close> and \<open>stopped\<close> panics with
  \<open>invalid state\<close> while building its error, and returns no error.
\<close>

theorem stateName_paused_panics:
  "stateName (StatePtr RunningState) = Return ''running''
   \<and> stateName (StatePtr CreatedState) = Return ''created''
   \<and> stateName (StatePtr DeletedState) = Return ''deleted''
   \<and> stateName (StatePtr StoppedState) = Return ''stopped''
   \<and> (v \<notin> {StatePtr RunningState, StatePtr CreatedState, StatePtr DeletedState,
             StatePtr StoppedState} \<longrightarrow> stateName v = Panic (InvalidState v))
   \<and> stateName (StatePtr PausedState) = Panic (InvalidState (StatePtr PausedState))
   \<and> (name \<noteq> ''running'' \<and> name \<noteq> ''stopped'' \<longrightarrow>
        pausedState_transition name p = Panic (InvalidState (StatePtr PausedState)))"
proof -
  have "stateName v = Panic (InvalidState v)"
    if "v \<notin> {StatePtr RunningState, StatePtr CreatedState, StatePtr DeletedState,
              StatePtr StoppedState}"
    using that by (cases v rule: stateName.cases) simp_all
  then show ?thesis
    by (simp add: pausedState_transition_def invalid_transition_def)
qed

theorem stateName_paused_panics_witness:
  "OtherValue ''int'' \<notin> {StatePtr RunningState, StatePtr CreatedState, StatePtr DeletedState,
       StatePtr StoppedState}
   \<and> stateName (OtherValue ''int'') = Panic (InvalidState (OtherValue ''int''))
   \<and> ''deleted'' \<noteq> ''running'' \<and> ''deleted'' \<noteq> ''stopped''
   \<and> pausedState_transition ''deleted'' (processIn PausedState) =
       Panic (InvalidState (StatePtr PausedState))"
  using stateName_paused_panics [of "OtherValue ''int''" "''deleted''" "processIn PausedState"]
  by simp

end
